theory Spec2Isabelle
  imports Main
begin

section \<open>The request and authentication core of the ProtonMail client\<close>

text \<open>
  A shallow embedding of \<^verbatim>\<open>protonmail/protonmail.go\<close>. Go strings and byte slices are
  \<open>string\<close> (lists of bytes). Every function that Go runs against the network or against
  the caller's closures takes explicit state: the data fields of the client (\<open>Client\<close>)
  and the outside world (\<open>'w\<close>: the server, the connection, whatever the hook reads).
\<close>

subsection \<open>Data model\<close>

type_synonym bytes = string

text \<open>
  Go's \<^verbatim>\<open>error\<close> values. \<open>APIError\<close> is \<^verbatim>\<open>*APIError{Code, Message}\<close>; \<open>Error\<close> is any
  other error value (transport, hook, encoding, decoding), carried by its text; \<open>Panic\<close> is
  a run-time panic (a call through a nil function value).
\<close>

datatype error = APIError int string | Error string | Panic string

text \<open>\<^verbatim>\<open>type RawAPIError struct { Message string `json:"Error"` }\<close>\<close>

record RawAPIError =
  Message :: string

text \<open>
  \<^verbatim>\<open>type resp struct { Code int; *RawAPIError }\<close>: the embedded pointer is nil (\<open>None\<close>)
  or points to a \<open>RawAPIError\<close>.
\<close>

record resp =
  Code :: int
  RawAPIError :: "RawAPIError option"

text \<open>
  The data fields of \<^verbatim>\<open>Client\<close>. \<^verbatim>\<open>keyRing\<close> is left out: no function of this file
  reads or writes it. The two function-valued fields are in \<open>Collab\<close> below.
\<close>

record Client =
  RootURL :: string
  AppVersion :: string
  uid :: string
  accessToken :: string
  authToken :: string

text \<open>
  \<^verbatim>\<open>*http.Request\<close>, as far as this file uses it. \<open>Header\<close> is the header map; only
  \<^verbatim>\<open>Header.Set\<close> writes it, which leaves one value under a key, so a key maps to one
  string. Every key the source uses is already in canonical form, so
  \<^verbatim>\<open>req.Header["Authorization"]\<close> is the lookup \<open>Header req ''Authorization''\<close>.
  \<open>Cookies\<close> lists the cookies attached with \<^verbatim>\<open>AddCookie\<close>, as (name, value), in the
  order they were added: \<^verbatim>\<open>AddCookie\<close> never replaces, it appends to the Cookie line.
  \<open>Body\<close> is the content the body reader supplies (\<open>None\<close> is a nil body), \<open>GetBody\<close>
  the replay function (\<open>None\<close> is nil); a replay function is a closure, so it may
  depend on the world.
\<close>

record 'w Request =
  Method :: string
  URL :: string
  Header :: "string \<rightharpoonup> string"
  Cookies :: "(string \<times> string) list"
  Body :: "bytes option"
  GetBody :: "('w \<Rightarrow> error + bytes) option"

text \<open>
  \<^verbatim>\<open>*http.Response\<close>: the status code, the body and whether \<^verbatim>\<open>Body.Close()\<close> has been
  called on it.
\<close>

record Response =
  StatusCode :: int
  RespBody :: bytes
  Closed :: bool

text \<open>
  What \<^verbatim>\<open>httpClient.Do\<close> and \<^verbatim>\<open>do\<close> return, the pair \<^verbatim>\<open>(resp, err)\<close>: \<open>Inr resp\<close>
  when \<^verbatim>\<open>err\<close> is nil, \<open>Inl (err, resp)\<close> otherwise, where the response may be nil.
\<close>

type_synonym outcome = "(error \<times> Response option) + Response"

type_synonym 'w transport = "'w \<Rightarrow> 'w Request \<Rightarrow> outcome \<times> 'w"

text \<open>
  The hook \<^verbatim>\<open>ReAuth func() error\<close> is a closure over the client: it reads and writes
  the client's fields and the world, and returns nil (\<open>None\<close>) or an error.
\<close>

type_synonym 'w hook = "'w \<Rightarrow> Client \<Rightarrow> error option \<times> Client \<times> 'w"

text \<open>
  The function-valued fields of \<^verbatim>\<open>Client\<close>. No function of this file assigns them, and
  the model takes it that the hook does not either.
\<close>

record 'w Collab =
  HTTPClient :: "'w transport option"
  ReAuth :: "'w hook option"

subsection \<open>Library functions the source calls\<close>

text \<open>
  Modelled from Go's \<^verbatim>\<open>net/url\<close>: \<^verbatim>\<open>url.QueryEscape\<close>. A byte is kept when it is an
  ASCII letter, a digit or one of \<^verbatim>\<open>-_.~\<close>; a space becomes \<^verbatim>\<open>+\<close>; every other byte
  becomes \<^verbatim>\<open>%\<close> and two upper-case hexadecimal digits.
\<close>

definition upperhex :: "nat \<Rightarrow> char" where
  "upperhex n = ''0123456789ABCDEF'' ! (n mod 16)"

definition shouldEscape :: "char \<Rightarrow> bool" where
  "shouldEscape c =
     (let n = (of_char c :: nat) in
      \<not> ((97 \<le> n \<and> n \<le> 122) \<or> (65 \<le> n \<and> n \<le> 90) \<or> (48 \<le> n \<and> n \<le> 57)
         \<or> c \<in> set ''-_.~''))"

fun QueryEscape :: "string \<Rightarrow> string" where
  "QueryEscape [] = []"
| "QueryEscape (c # s) =
     (if c = CHR '' '' then CHR ''+'' # QueryEscape s
      else if shouldEscape c
        then CHR ''%'' # upperhex (of_char c div 16) # upperhex (of_char c mod 16) # QueryEscape s
      else c # QueryEscape s)"

text \<open>\<^verbatim>\<open>req.Header.Set(key, value)\<close> and \<^verbatim>\<open>req.AddCookie(&cookie)\<close>.\<close>

definition Header_Set :: "string \<Rightarrow> string \<Rightarrow> 'w Request \<Rightarrow> 'w Request" where
  "Header_Set k v req = req\<lparr>Header := (Header req)(k \<mapsto> v)\<rparr>"

definition AddCookie :: "string \<times> string \<Rightarrow> 'w Request \<Rightarrow> 'w Request" where
  "AddCookie ck req = req\<lparr>Cookies := Cookies req @ [ck]\<rparr>"

text \<open>
  The \<^verbatim>\<open>io.Reader\<close> handed to \<^verbatim>\<open>http.NewRequest\<close>: a \<^verbatim>\<open>*bytes.Reader\<close> over a byte
  slice, or any other reader, known by the content it will supply.
\<close>

datatype reader = BytesReader bytes | OtherReader bytes

text \<open>
  Modelled from Go's \<^verbatim>\<open>net/http\<close>: \<^verbatim>\<open>http.NewRequest\<close>. The library's checks of the
  method and of the URL are the parameter \<open>chk\<close>. The new request has no header and no
  cookie; for a \<^verbatim>\<open>*bytes.Reader\<close> the library stores a replay function over the same
  bytes, for any other reader it stores none.
\<close>

definition http_NewRequest ::
  "(string \<Rightarrow> string \<Rightarrow> error option) \<Rightarrow> string \<Rightarrow> string \<Rightarrow> reader option \<Rightarrow> error + 'w Request"
where
  "http_NewRequest chk method url body =
     (case chk method url of
        Some err \<Rightarrow> Inl err
      | None \<Rightarrow>
          Inr \<lparr>Method = method, URL = url, Header = Map.empty, Cookies = [],
               Body = (case body of None \<Rightarrow> None
                       | Some (BytesReader b) \<Rightarrow> Some b
                       | Some (OtherReader b) \<Rightarrow> Some b),
               GetBody = (case body of None \<Rightarrow> None
                          | Some (BytesReader b) \<Rightarrow> Some (\<lambda>_. Inr b)
                          | Some (OtherReader b) \<Rightarrow> None)\<rparr>)"

subsection \<open>The request builder\<close>

definition Version :: int where
  "Version = 3"

definition headerAPIVersion :: string where
  "headerAPIVersion = ''X-Pm-Apiversion''"

definition headerAppVersion :: string where
  "headerAppVersion = ''X-Pm-Appversion''"

text \<open>\<^verbatim>\<open>strconv.Itoa\<close>, for the one-digit numbers the source calls it on.\<close>

definition Itoa :: "int \<Rightarrow> string" where
  "Itoa n = [''0123456789'' ! nat (n mod 10)]"

definition setRequestAuthorization :: "Client \<Rightarrow> 'w Request \<Rightarrow> 'w Request" where
  "setRequestAuthorization c req =
     (if uid c \<noteq> [] then
        (let req1 = Header_Set ''X-Pm-Uid'' (uid c) req;
             req2 = (if authToken c \<noteq> []
                     then AddCookie (''AUTH-'' @ uid c, QueryEscape (authToken c)) req1
                     else req1)
         in if accessToken c \<noteq> []
            then Header_Set ''Authorization'' (''Bearer '' @ accessToken c) req2
            else req2)
      else req)"

definition newRequest ::
  "(string \<Rightarrow> string \<Rightarrow> error option) \<Rightarrow> Client \<Rightarrow> string \<Rightarrow> string \<Rightarrow> reader option
     \<Rightarrow> error + 'w Request"
where
  "newRequest chk c method path body =
     (case http_NewRequest chk method (RootURL c @ path) body of
        Inl err \<Rightarrow> Inl err
      | Inr req \<Rightarrow>
          Inr (setRequestAuthorization c
                 (Header_Set headerAPIVersion (Itoa Version)
                    (Header_Set headerAppVersion (AppVersion c) req))))"

text \<open>
  \<^verbatim>\<open>newJSONRequest\<close>. \<open>enc\<close> is \<^verbatim>\<open>json.NewEncoder(&buf).Encode(body)\<close>: the bytes written
  to the buffer, or the encoder's error.
\<close>

definition newJSONRequest ::
  "('b \<Rightarrow> error + bytes) \<Rightarrow> (string \<Rightarrow> string \<Rightarrow> error option) \<Rightarrow> Client \<Rightarrow> string \<Rightarrow> string \<Rightarrow> 'b
     \<Rightarrow> error + 'w Request"
where
  "newJSONRequest enc chk c method path body =
     (case enc body of
        Inl err \<Rightarrow> Inl err
      | Inr b \<Rightarrow>
          (case newRequest chk c method path (Some (BytesReader b)) of
             Inl err \<Rightarrow> Inl err
           | Inr req \<Rightarrow>
               Inr ((Header_Set ''Content-Type'' ''application/json'' req)
                      \<lparr>GetBody := Some (\<lambda>_. Inr b)\<rparr>)))"

subsection \<open>The transport executor\<close>

text \<open>
  \<^verbatim>\<open>do\<close>. \<open>DefaultClient\<close> is \<^verbatim>\<open>http.DefaultClient\<close>. The result is what the call
  returns, the client's fields and the world after it. The recursion of the source has no
  bound, so the function is partial: \<open>None\<close> is a call that never returns.
\<close>

partial_function (option) do ::
  "'w transport \<Rightarrow> 'w Collab \<Rightarrow> Client \<Rightarrow> 'w \<Rightarrow> 'w Request \<Rightarrow> (outcome \<times> Client \<times> 'w) option"
where
  "do DefaultClient col c w req =
     (let httpClient = (case HTTPClient col of None \<Rightarrow> DefaultClient | Some t \<Rightarrow> t) in
      case httpClient w req of
        (Inl (err, ro), w1) \<Rightarrow> Some (Inl (err, ro), c, w1)
      | (Inr resp, w1) \<Rightarrow>
          (let hasAuth = (Header req ''Authorization'' \<noteq> None);
               canRetry = (Body req = None \<or> GetBody req \<noteq> None)
           in case (if StatusCode resp = 401 \<and> hasAuth \<and> canRetry then ReAuth col else None) of
                None \<Rightarrow> Some (Inr resp, c, w1)
              | Some reAuth \<Rightarrow>
                  (let resp1 = resp\<lparr>Closed := True\<rparr> in
                   case reAuth w1 (c\<lparr>accessToken := []\<rparr>) of
                     (Some err, c2, w2) \<Rightarrow> Some (Inl (err, Some resp1), c2, w2)
                   | (None, c2, w2) \<Rightarrow>
                       (let req1 = setRequestAuthorization c2 req in
                        case Body req1 of
                          None \<Rightarrow> do DefaultClient col c2 w2 req1
                        | Some _ \<Rightarrow>
                            (case GetBody req1 of
                               None \<Rightarrow> Some (Inl (Panic ''nil GetBody'', None), c2, w2)
                             | Some getBody \<Rightarrow>
                                 (case getBody w2 of
                                    Inl err \<Rightarrow> Some (Inl (err, Some resp1), c2, w2)
                                  | Inr body \<Rightarrow>
                                      do DefaultClient col c2 w2 (req1\<lparr>Body := Some body\<rparr>)))))))"

text \<open>The recursion equation is the code equation of \<open>do\<close>.\<close>

declare do.simps [code]

subsection \<open>The response decoder\<close>

text \<open>\<^verbatim>\<open>func (r *resp) Err() error\<close>: nil (\<open>None\<close>) exactly when the embedded pointer is nil.\<close>

definition resp_Err :: "resp \<Rightarrow> error option" where
  "resp_Err r =
     (case RawAPIError r of
        Some err \<Rightarrow> Some (APIError (Code r) (Message err))
      | None \<Rightarrow> None)"

text \<open>
  A destination \<^verbatim>\<open>respData interface{}\<close> that is not nil: a pointer to a value of some
  type \<open>'a\<close>. \<open>Decode\<close> is what \<^verbatim>\<open>json.NewDecoder(body).Decode\<close> stores in it, or the
  decoder's error; \<open>Err\<close> is its method \<^verbatim>\<open>Err() error\<close> when the type implements
  \<^verbatim>\<open>maybeError\<close>, \<open>None\<close> when it does not.
\<close>

record 'a shape =
  Decode :: "bytes \<Rightarrow> error + 'a"
  Err :: "('a \<Rightarrow> error option) option"

text \<open>
  \<^verbatim>\<open>new(resp)\<close>, the destination used when the caller gives none. \<open>dec\<close> is the JSON
  decoder of the library at type \<^verbatim>\<open>*resp\<close>.
\<close>

definition new_resp :: "(bytes \<Rightarrow> error + resp) \<Rightarrow> resp shape" where
  "new_resp dec = \<lparr>Decode = dec, Err = Some resp_Err\<rparr>"

text \<open>
  Lines 169 to 181 of \<^verbatim>\<open>doJSON\<close>, which run on whichever destination is in
  \<^verbatim>\<open>respData\<close>: decode the body, then ask the destination for its error. The result is
  the error returned and the value left in the destination.
\<close>

definition decodeInto :: "'a shape \<Rightarrow> Response \<Rightarrow> error option \<times> 'a option" where
  "decodeInto respData r =
     (case Decode respData (RespBody r) of
        Inl err \<Rightarrow> (Some err, None)
      | Inr v \<Rightarrow>
          (case Err respData of
             Some maybeError \<Rightarrow>
               (case maybeError v of
                  Some err \<Rightarrow> (Some err, Some v)
                | None \<Rightarrow> (None, Some v))
           | None \<Rightarrow> (None, Some v)))"

text \<open>
  \<^verbatim>\<open>doJSON\<close>. The result is the error returned (\<open>None\<close> is nil), the value left in the
  caller's destination (\<open>None\<close> when the caller gave no destination or nothing was
  decoded), the client's fields and the world. Logging is left out.
\<close>

definition doJSON ::
  "(bytes \<Rightarrow> error + resp) \<Rightarrow> 'w transport \<Rightarrow> 'w Collab \<Rightarrow> Client \<Rightarrow> 'w \<Rightarrow> 'w Request
     \<Rightarrow> 'a shape option \<Rightarrow> (error option \<times> 'a option \<times> Client \<times> 'w) option"
where
  "doJSON dec DefaultClient col c w req respData =
     (case do DefaultClient col c w (Header_Set ''Accept'' ''application/json'' req) of
        None \<Rightarrow> None
      | Some (Inl (err, ro), c1, w1) \<Rightarrow> Some (Some err, None, c1, w1)
      | Some (Inr r, c1, w1) \<Rightarrow>
          (case respData of
             None \<Rightarrow> Some (fst (decodeInto (new_resp dec) r), None, c1, w1)
           | Some dest \<Rightarrow>
               Some (fst (decodeInto dest r), snd (decodeInto dest r), c1, w1)))"

subsection \<open>A scripted server\<close>

text \<open>
  A world for running the functions above: the answers the server will still give (status
  code and body), what it has received so far (the Authorization header, the cookies and
  the body of every request sent) and how often the hook has run.
\<close>

record World =
  script :: "(int \<times> bytes) list"
  sent :: "(string option \<times> (string \<times> string) list \<times> bytes option) list"
  reauths :: nat

definition scripted :: "World transport" where
  "scripted w req =
     (case script w of
        [] \<Rightarrow> (Inl (Error ''connection refused'', None), w)
      | (st, b) # rest \<Rightarrow>
          (Inr \<lparr>StatusCode = st, RespBody = b, Closed = False\<rparr>,
           w\<lparr>script := rest,
             sent := sent w @ [(Header req ''Authorization'', Cookies req, Body req)]\<rparr>))"

text \<open>A hook that stores a new access token, and one that fails and stores nothing.\<close>

definition refresh :: "string \<Rightarrow> World hook" where
  "refresh tok w c = (None, c\<lparr>accessToken := tok\<rparr>, w\<lparr>reauths := Suc (reauths w)\<rparr>)"

definition refresh_fails :: "World hook" where
  "refresh_fails w c = (Some (Error ''refresh failed''), c, w\<lparr>reauths := Suc (reauths w)\<rparr>)"

definition server :: "(int \<times> bytes) list \<Rightarrow> World" where
  "server answers = \<lparr>script = answers, sent = [], reauths = 0\<rparr>"

definition client_u1 :: Client where
  "client_u1 = \<lparr>RootURL = ''https://mail.example/api'', AppVersion = ''Other'',
                 uid = ''u1'', accessToken = ''t1'', authToken = ''a b/c''\<rparr>"

definition no_check :: "string \<Rightarrow> string \<Rightarrow> error option" where
  "no_check method url = None"

text \<open>
  What the JSON decoder of the library stores in a \<^verbatim>\<open>resp\<close> for three bodies. A key
  \<^verbatim>\<open>"Error"\<close> in the body makes the decoder allocate the embedded \<^verbatim>\<open>RawAPIError\<close>
  before it stores the message, whatever the message is.
\<close>

definition decode_resp :: "bytes \<Rightarrow> error + resp" where
  \<open>decode_resp b =
     (if b = ''{"Code":2000}'' then Inr \<lparr>Code = 2000, RawAPIError = None\<rparr>
      else if b = ''{"Code":1000}'' then Inr \<lparr>Code = 1000, RawAPIError = None\<rparr>
      else if b = ''{"Code":401,"Error":"invalid token"}''
        then Inr \<lparr>Code = 401, RawAPIError = Some \<lparr>Message = ''invalid token''\<rparr>\<rparr>
      else if b = ''{"Code":401,"Error":""}''
        then Inr \<lparr>Code = 401, RawAPIError = Some \<lparr>Message = []\<rparr>\<rparr>
      else Inl (Error ''unexpected end of JSON input''))\<close>

text \<open>
  The request that \<open>newRequest\<close> builds for \<^verbatim>\<open>GET /x\<close> with the client \<open>client_u1\<close>
  (lemma \<open>get_x_built\<close> below), and a destination type that embeds \<^verbatim>\<open>resp\<close> beside a
  field of its own, as the result types of the API calls do.
\<close>

definition get_x :: "World Request" where
  "get_x = \<lparr>Method = ''GET'', URL = ''https://mail.example/api/x'',
            Header = [''X-Pm-Appversion'' \<mapsto> ''Other'', ''X-Pm-Apiversion'' \<mapsto> ''3'',
                      ''X-Pm-Uid'' \<mapsto> ''u1'', ''Authorization'' \<mapsto> ''Bearer t1''],
            Cookies = [(''AUTH-u1'', ''a+b%2Fc'')], Body = None, GetBody = None\<rparr>"

definition total_shape :: "(resp \<times> nat) shape" where
  "total_shape =
     \<lparr>Decode = (\<lambda>b. case decode_resp b of Inl err \<Rightarrow> Inl err | Inr env \<Rightarrow> Inr (env, 0)),
      Err = Some (\<lambda>v. resp_Err (fst v))\<rparr>"

text \<open>
  A hook that stores an access token and then fails, and the request that
  \<open>newJSONRequest\<close> builds for \<^verbatim>\<open>PUT /x\<close> with the client \<open>client_u1\<close> and a body that the
  encoder \<open>encode_1000\<close> turns into the bytes \<^verbatim>\<open>{"Code":1000}\<close> (lemma \<open>put_x_built\<close> below).
\<close>

definition store_then_fail :: "string \<Rightarrow> World hook" where
  "store_then_fail tok w c =
     (Some (Error ''refresh failed''), c\<lparr>accessToken := tok\<rparr>, w\<lparr>reauths := Suc (reauths w)\<rparr>)"



section \<open>Properties\<close>

subsection \<open>What re-attaching the authorization leaves alone\<close>

lemma setRequestAuthorization_Body [simp]:
  "Body (setRequestAuthorization c req) = Body req"
  by (simp add: setRequestAuthorization_def Header_Set_def AddCookie_def Let_def)

lemma setRequestAuthorization_GetBody [simp]:
  "GetBody (setRequestAuthorization c req) = GetBody req"
  by (simp add: setRequestAuthorization_def Header_Set_def AddCookie_def Let_def)

lemma setRequestAuthorization_keeps_Authorization:
  "Header req ''Authorization'' \<noteq> None \<Longrightarrow>
   Header (setRequestAuthorization c req) ''Authorization'' \<noteq> None"
  by (simp add: setRequestAuthorization_def Header_Set_def AddCookie_def Let_def)

text \<open>The definitions that running the scripted server unfolds.\<close>

lemmas run_defs =
  scripted_def server_def refresh_def refresh_fails_def client_u1_def no_check_def
  newRequest_def http_NewRequest_def setRequestAuthorization_def Header_Set_def AddCookie_def
  headerAPIVersion_def headerAppVersion_def Itoa_def Version_def Let_def shouldEscape_def
  upperhex_def

lemma get_x_built: "newRequest no_check client_u1 ''GET'' ''/x'' None = Inr get_x"
  by (simp add: run_defs get_x_def)


text \<open>The run of the scenario: 401, a hook that stores the token \<^verbatim>\<open>t2\<close>, then 200.\<close>

lemma run_401_200:
  "do scripted \<lparr>HTTPClient = None, ReAuth = Some (refresh ''t2'')\<rparr> client_u1
      (server [(401, []), (200, [])]) get_x
     = Some (Inr \<lparr>StatusCode = 200, RespBody = [], Closed = False\<rparr>,
             client_u1\<lparr>accessToken := ''t2''\<rparr>,
             \<lparr>script = [],
              sent = [(Some ''Bearer t1'', [(''AUTH-u1'', ''a+b%2Fc'')], None),
                      (Some ''Bearer t2'',
                       [(''AUTH-u1'', ''a+b%2Fc''), (''AUTH-u1'', ''a+b%2Fc'')], None)],
              reauths = 1\<rparr>)"
  apply (subst do.simps, simp add: run_defs get_x_def)
  apply (subst do.simps, simp add: run_defs get_x_def)
  done

subsection \<open>The request builder\<close>

text \<open>
  C7. When the client's \<open>uid\<close> (the session identifier) is empty, attaching the
  authorization changes nothing, and a request built by \<open>newRequest\<close> or by
  \<open>newJSONRequest\<close> has no \<^verbatim>\<open>X-Pm-Uid\<close> header, no \<^verbatim>\<open>Authorization\<close> header and no
  cookie, whatever the two tokens are.
\<close>

theorem no_session_no_authorization:
  assumes "uid c = []"
  shows "setRequestAuthorization c (req :: 'w Request) = req
       \<and> (\<forall>r :: 'w Request. newRequest chk c method path body = Inr r \<longrightarrow>
            Header r ''X-Pm-Uid'' = None \<and> Header r ''Authorization'' = None \<and> Cookies r = [])
       \<and> (\<forall>r :: 'w Request. newJSONRequest enc chk c method path v = Inr r \<longrightarrow>
            Header r ''X-Pm-Uid'' = None \<and> Header r ''Authorization'' = None \<and> Cookies r = [])"
  using assms
  by (auto simp add: setRequestAuthorization_def newRequest_def newJSONRequest_def
      http_NewRequest_def Header_Set_def headerAPIVersion_def headerAppVersion_def
      split: option.splits sum.splits)

theorem no_session_no_authorization_witness:
  "\<exists>r :: World Request.
     newRequest no_check (client_u1\<lparr>uid := []\<rparr>) ''GET'' ''/x'' None = Inr r
     \<and> Header r ''X-Pm-Uid'' = None \<and> Header r ''Authorization'' = None \<and> Cookies r = []
     \<and> accessToken (client_u1\<lparr>uid := []\<rparr>) = ''t1''"
proof -
  have u: "uid (client_u1\<lparr>uid := []\<rparr>) = []" by simp
  obtain r :: "World Request"
    where r: "newRequest no_check (client_u1\<lparr>uid := []\<rparr>) ''GET'' ''/x'' None = Inr r"
    by (simp add: newRequest_def http_NewRequest_def no_check_def)
  have "Header r ''X-Pm-Uid'' = None \<and> Header r ''Authorization'' = None \<and> Cookies r = []"
    by (rule no_session_no_authorization [OF u, THEN conjunct2, THEN conjunct1, rule_format, OF r])
  moreover have "accessToken (client_u1\<lparr>uid := []\<rparr>) = ''t1''"
    by (simp add: client_u1_def)
  ultimately show ?thesis using r by blast
qed

text \<open>
  C9. When \<open>uid\<close> and \<open>authToken\<close> are both non-empty, attaching the authorization adds one
  cookie: its name is the fixed prefix \<^verbatim>\<open>AUTH-\<close> followed by \<open>uid\<close>, its value is
  \<open>authToken\<close> percent-encoded by \<open>QueryEscape\<close>.
\<close>

theorem auth_cookie_attached:
  assumes "uid c \<noteq> []" and "authToken c \<noteq> []"
  shows "Cookies (setRequestAuthorization c req)
           = Cookies req @ [(''AUTH-'' @ uid c, QueryEscape (authToken c))]"
  using assms
  by (simp add: setRequestAuthorization_def Header_Set_def AddCookie_def Let_def)

theorem auth_cookie_attached_witness:
  "uid client_u1 \<noteq> [] \<and> authToken client_u1 = ''a b/c''
   \<and> Cookies (setRequestAuthorization client_u1
        (\<lparr>Method = ''GET'', URL = ''/x'', Header = Map.empty, Cookies = [],
          Body = None, GetBody = None\<rparr> :: World Request))
      = [(''AUTH-u1'', ''a+b%2Fc'')]"
proof -
  have u: "uid client_u1 \<noteq> []" and a: "authToken client_u1 \<noteq> []"
    by (simp_all add: client_u1_def)
  have "QueryEscape (authToken client_u1) = ''a+b%2Fc''"
    by (simp add: client_u1_def shouldEscape_def upperhex_def)
  with auth_cookie_attached [OF u a,
      of "\<lparr>Method = ''GET'', URL = ''/x'', Header = Map.empty, Cookies = [],
          Body = None, GetBody = None\<rparr> :: World Request"]
  show ?thesis by (simp add: client_u1_def)
qed

text \<open>
  C6. A request built by \<open>newJSONRequest\<close> holds the bytes \<open>b\<close> that the encoder produced
  for the body, encoded once: \<open>b\<close> is the request's body, and the stored replay function
  returns \<open>b\<close> without error whenever it is called, in every state of the world.
\<close>

theorem newJSONRequest_replays_body:
  assumes "newJSONRequest enc chk c method path v = Inr req"
  shows "\<exists>b getBody. enc v = Inr b \<and> Body req = Some b \<and> GetBody req = Some getBody
           \<and> (\<forall>w. getBody w = Inr b)"
  using assms
  by (auto simp add: newJSONRequest_def newRequest_def http_NewRequest_def Header_Set_def
      split: option.splits sum.splits)

theorem newJSONRequest_replays_body_witness:
  \<open>\<exists>(req :: World Request) getBody.
     newJSONRequest (\<lambda>n :: nat. Inr ''{"Code":1000}'') no_check client_u1 ''PUT'' ''/x'' 7 = Inr req
     \<and> Body req = Some ''{"Code":1000}'' \<and> GetBody req = Some getBody
     \<and> getBody (server []) = Inr ''{"Code":1000}''
     \<and> getBody (server [(401, [])]) = Inr ''{"Code":1000}''\<close>
proof -
  obtain req :: "World Request" where req:
    \<open>newJSONRequest (\<lambda>n :: nat. Inr ''{"Code":1000}'') no_check client_u1 ''PUT'' ''/x'' 7 = Inr req\<close>
    by (simp add: newJSONRequest_def newRequest_def http_NewRequest_def no_check_def)
  from newJSONRequest_replays_body [OF req] req show ?thesis by auto
qed

subsection \<open>The transport executor\<close>

text \<open>
  C2. When the transport answers (with 401 or any other status) and one of the three guard
  conditions fails (the request has no \<^verbatim>\<open>Authorization\<close> header, or no hook is configured,
  or the request has a body and no replay function), \<open>do\<close> returns that response as it
  received it, the client's fields as they were (so the access token too), and the world
  as the one transport call left it: the hook has not run and nothing was sent again.
\<close>

theorem guard_fails_no_retry:
  assumes "(case HTTPClient col of None \<Rightarrow> D | Some t \<Rightarrow> t) w req = (Inr r, w1)"
      and "Header req ''Authorization'' = None \<or> ReAuth col = None
           \<or> (Body req \<noteq> None \<and> GetBody req = None)"
  shows "do D col c w req = Some (Inr r, c, w1)"
  using assms
  by (subst do.simps) (auto simp add: Let_def)

theorem guard_fails_no_retry_witness:
  "do scripted \<lparr>HTTPClient = None, ReAuth = None\<rparr> client_u1 (server [(401, [])]) get_x
     = Some (Inr \<lparr>StatusCode = 401, RespBody = [], Closed = False\<rparr>, client_u1,
             \<lparr>script = [], sent = [(Some ''Bearer t1'', [(''AUTH-u1'', ''a+b%2Fc'')], None)],
              reauths = 0\<rparr>)"
proof -
  have t: "(case HTTPClient \<lparr>HTTPClient = None, ReAuth = None\<rparr> of None \<Rightarrow> scripted | Some t \<Rightarrow> t)
             (server [(401, [])]) get_x
           = (Inr \<lparr>StatusCode = 401, RespBody = [], Closed = False\<rparr>,
              \<lparr>script = [], sent = [(Some ''Bearer t1'', [(''AUTH-u1'', ''a+b%2Fc'')], None)],
               reauths = 0\<rparr>)"
    by (simp add: scripted_def server_def get_x_def)
  have g: "Header get_x ''Authorization'' = None
           \<or> ReAuth \<lparr>HTTPClient = None, ReAuth = (None :: World hook option)\<rparr> = None
           \<or> (Body get_x \<noteq> None \<and> GetBody get_x = None)"
    by simp
  show ?thesis by (rule guard_fails_no_retry [OF t g])
qed

text \<open>
  C3. When the transport answers 401, the three guard conditions hold and the hook, called
  with the access token cleared, returns an error, \<open>do\<close> returns that error with the closed
  response; the world is the one the hook left (nothing was sent again) and the client's
  fields are the ones the hook left. The access token is not set back to its value before
  the failure: it is empty when the failing hook stored none, and is what the hook stored
  otherwise.
\<close>

theorem reauth_error_is_final:
  assumes "(case HTTPClient col of None \<Rightarrow> D | Some t \<Rightarrow> t) w req = (Inr r, w1)"
      and "StatusCode r = 401"
      and "Header req ''Authorization'' \<noteq> None"
      and "ReAuth col = Some reAuth"
      and "Body req = None \<or> GetBody req \<noteq> None"
      and "reAuth w1 (c\<lparr>accessToken := []\<rparr>) = (Some err, c2, w2)"
  shows "do D col c w req = Some (Inl (err, Some (r\<lparr>Closed := True\<rparr>)), c2, w2)"
  using assms by (subst do.simps) (auto simp add: Let_def)

theorem reauth_error_is_final_witness:
  "do scripted \<lparr>HTTPClient = None, ReAuth = Some refresh_fails\<rparr> client_u1
      (server [(401, []), (200, [])]) get_x
     = Some (Inl (Error ''refresh failed'',
                  Some \<lparr>StatusCode = 401, RespBody = [], Closed = True\<rparr>),
             \<lparr>RootURL = ''https://mail.example/api'', AppVersion = ''Other'',
              uid = ''u1'', accessToken = [], authToken = ''a b/c''\<rparr>,
             \<lparr>script = [(200, [])],
              sent = [(Some ''Bearer t1'', [(''AUTH-u1'', ''a+b%2Fc'')], None)],
              reauths = 1\<rparr>)"
proof -
  let ?col = "\<lparr>HTTPClient = None, ReAuth = Some refresh_fails\<rparr>"
  let ?w1 = "\<lparr>script = [(200, [])],
              sent = [(Some ''Bearer t1'', [(''AUTH-u1'', ''a+b%2Fc'')], None)],
              reauths = 0\<rparr>"
  have t: "(case HTTPClient ?col of None \<Rightarrow> scripted | Some t \<Rightarrow> t)
             (server [(401, []), (200, [])]) get_x
           = (Inr \<lparr>StatusCode = 401, RespBody = [], Closed = False\<rparr>, ?w1)"
    by (simp add: scripted_def server_def get_x_def)
  have s: "StatusCode \<lparr>StatusCode = 401, RespBody = [], Closed = False\<rparr> = 401" by simp
  have a: "Header get_x ''Authorization'' \<noteq> None" by (simp add: get_x_def)
  have h: "ReAuth ?col = Some refresh_fails" by simp
  have b: "Body get_x = None \<or> GetBody get_x \<noteq> None" by (simp add: get_x_def)
  have f: "refresh_fails ?w1 (client_u1\<lparr>accessToken := []\<rparr>)
           = (Some (Error ''refresh failed''), client_u1\<lparr>accessToken := []\<rparr>, ?w1\<lparr>reauths := 1\<rparr>)"
    by (simp add: refresh_fails_def)
  from reauth_error_is_final [OF t s a h b f] show ?thesis by (simp add: client_u1_def)
qed

text \<open>
  The server answers 401 and the hook stores the token \<^verbatim>\<open>stale\<close> before it fails: the
  access token is not empty after the call.
\<close>

theorem failing_hook_can_leave_token:
  "do scripted \<lparr>HTTPClient = None, ReAuth = Some (store_then_fail ''stale'')\<rparr> client_u1
      (server [(401, []), (200, [])]) get_x
     = Some (Inl (Error ''refresh failed'',
                  Some \<lparr>StatusCode = 401, RespBody = [], Closed = True\<rparr>),
             \<lparr>RootURL = ''https://mail.example/api'', AppVersion = ''Other'',
              uid = ''u1'', accessToken = ''stale'', authToken = ''a b/c''\<rparr>,
             \<lparr>script = [(200, [])],
              sent = [(Some ''Bearer t1'', [(''AUTH-u1'', ''a+b%2Fc'')], None)],
              reauths = 1\<rparr>)"
  by (subst do.simps) (simp add: run_defs get_x_def store_then_fail_def)

text \<open>
  C1. A second 401 is not final: the send that follows a successful re-authentication is
  the same procedure again, so a second 401 is retried like the first. What holds: when the
  transport answers 401, the three guard conditions hold, the hook succeeds and the body,
  if there is one, is replayed, \<open>do\<close> continues as \<open>do\<close> on the re-authorized request, and
  that request still carries an \<^verbatim>\<open>Authorization\<close> header and is still replayable. Each
  401 so leads to one hook call and one more send, with no bound on their number.
\<close>

theorem retry_restarts_send:
  assumes "(case HTTPClient col of None \<Rightarrow> D | Some t \<Rightarrow> t) w req = (Inr r, w1)"
      and "StatusCode r = 401"
      and "Header req ''Authorization'' \<noteq> None"
      and "ReAuth col = Some reAuth"
      and "reAuth w1 (c\<lparr>accessToken := []\<rparr>) = (None, c2, w2)"
      and "case Body req of
             None \<Rightarrow> req2 = setRequestAuthorization c2 req
           | Some _ \<Rightarrow> (\<exists>getBody b. GetBody req = Some getBody \<and> getBody w2 = Inr b
                          \<and> req2 = (setRequestAuthorization c2 req)\<lparr>Body := Some b\<rparr>)"
  shows "do D col c w req = do D col c2 w2 req2
       \<and> Header req2 ''Authorization'' \<noteq> None
       \<and> (Body req2 = None \<or> GetBody req2 \<noteq> None)"
proof -
  have "do D col c w req = do D col c2 w2 req2"
    using assms by (subst do.simps) (auto simp add: Let_def split: option.splits)
  moreover have "Header req2 ''Authorization'' \<noteq> None"
    using assms(3,6) setRequestAuthorization_keeps_Authorization [of req c2]
    by (auto split: option.splits)
  moreover have "Body req2 = None \<or> GetBody req2 \<noteq> None"
    using assms(6) by (auto split: option.splits)
  ultimately show ?thesis by simp
qed

theorem retry_restarts_send_witness:
  "do scripted \<lparr>HTTPClient = None, ReAuth = Some (refresh ''t2'')\<rparr> client_u1
      (server [(401, []), (200, [])]) get_x
     = Some (Inr \<lparr>StatusCode = 200, RespBody = [], Closed = False\<rparr>,
             client_u1\<lparr>accessToken := ''t2''\<rparr>,
             \<lparr>script = [],
              sent = [(Some ''Bearer t1'', [(''AUTH-u1'', ''a+b%2Fc'')], None),
                      (Some ''Bearer t2'',
                       [(''AUTH-u1'', ''a+b%2Fc''), (''AUTH-u1'', ''a+b%2Fc'')], None)],
              reauths = 1\<rparr>)"
proof -
  let ?col = "\<lparr>HTTPClient = None, ReAuth = Some (refresh ''t2'')\<rparr>"
  let ?w1 = "\<lparr>script = [(200, [])],
              sent = [(Some ''Bearer t1'', [(''AUTH-u1'', ''a+b%2Fc'')], None)],
              reauths = 0\<rparr>"
  let ?c2 = "client_u1\<lparr>accessToken := ''t2''\<rparr>"
  have t: "(case HTTPClient ?col of None \<Rightarrow> scripted | Some t \<Rightarrow> t)
             (server [(401, []), (200, [])]) get_x
           = (Inr \<lparr>StatusCode = 401, RespBody = [], Closed = False\<rparr>, ?w1)"
    by (simp add: scripted_def server_def get_x_def)
  have s: "StatusCode \<lparr>StatusCode = 401, RespBody = [], Closed = False\<rparr> = 401" by simp
  have a: "Header get_x ''Authorization'' \<noteq> None" by (simp add: get_x_def)
  have h: "ReAuth ?col = Some (refresh ''t2'')" by simp
  have f: "refresh ''t2'' ?w1 (client_u1\<lparr>accessToken := []\<rparr>) = (None, ?c2, ?w1\<lparr>reauths := 1\<rparr>)"
    by (simp add: refresh_def)
  have b: "case Body get_x of
             None \<Rightarrow> setRequestAuthorization ?c2 get_x = setRequestAuthorization ?c2 get_x
           | Some _ \<Rightarrow> (\<exists>getBody b. GetBody get_x = Some getBody
                          \<and> getBody (?w1\<lparr>reauths := 1\<rparr>) = Inr b
                          \<and> setRequestAuthorization ?c2 get_x
                              = (setRequestAuthorization ?c2 get_x)\<lparr>Body := Some b\<rparr>)"
    by (simp add: get_x_def)
  have "do scripted ?col client_u1 (server [(401, []), (200, [])]) get_x
          = do scripted ?col ?c2 (?w1\<lparr>reauths := 1\<rparr>) (setRequestAuthorization ?c2 get_x)"
    using retry_restarts_send [OF t s a h f b] by simp
  also have "\<dots> = Some (Inr \<lparr>StatusCode = 200, RespBody = [], Closed = False\<rparr>, ?c2,
             \<lparr>script = [],
              sent = [(Some ''Bearer t1'', [(''AUTH-u1'', ''a+b%2Fc'')], None),
                      (Some ''Bearer t2'',
                       [(''AUTH-u1'', ''a+b%2Fc''), (''AUTH-u1'', ''a+b%2Fc'')], None)],
              reauths = 1\<rparr>)"
    by (subst do.simps) (simp add: run_defs get_x_def)
  finally show ?thesis .
qed

text \<open>
  The server answers 401, 401 and 200, and the hook succeeds each time: the second 401 is
  not returned, the request is sent three times and the hook runs twice.
\<close>

theorem second_401_is_retried:
  "do scripted \<lparr>HTTPClient = None, ReAuth = Some (refresh ''t2'')\<rparr> client_u1
      (server [(401, []), (401, []), (200, [])]) get_x
     = Some (Inr \<lparr>StatusCode = 200, RespBody = [], Closed = False\<rparr>,
             client_u1\<lparr>accessToken := ''t2''\<rparr>,
             \<lparr>script = [],
              sent = [(Some ''Bearer t1'', [(''AUTH-u1'', ''a+b%2Fc'')], None),
                      (Some ''Bearer t2'',
                       [(''AUTH-u1'', ''a+b%2Fc''), (''AUTH-u1'', ''a+b%2Fc'')], None),
                      (Some ''Bearer t2'',
                       [(''AUTH-u1'', ''a+b%2Fc''), (''AUTH-u1'', ''a+b%2Fc''),
                        (''AUTH-u1'', ''a+b%2Fc'')], None)],
              reauths = 2\<rparr>)"
  apply (subst do.simps, simp add: run_defs get_x_def)
  apply (subst do.simps, simp add: run_defs get_x_def)
  apply (subst do.simps, simp add: run_defs get_x_def)
  done

text \<open>
  There is no bound: against a server that answers 401 \<open>n\<close> times and then 200, a request
  without a body is sent \<open>n + 1\<close> times and the hook runs \<open>n\<close> times, for every \<open>n\<close>.
\<close>

lemma retries_unbounded:
  assumes "Header req ''Authorization'' \<noteq> None" and "Body req = None"
  shows "\<exists>c' w'. do scripted \<lparr>HTTPClient = None, ReAuth = Some (refresh tok)\<rparr> c
            \<lparr>script = replicate n (401, []) @ [(200, [])], sent = ss, reauths = k\<rparr> req
          = Some (Inr \<lparr>StatusCode = 200, RespBody = [], Closed = False\<rparr>, c', w')
        \<and> reauths w' = k + n \<and> length (sent w') = length ss + n + 1"
  using assms
proof (induction n arbitrary: c ss k req)
  case 0
  then show ?case
    by (subst do.simps) (simp add: scripted_def)
next
  case (Suc n)
  let ?col = "\<lparr>HTTPClient = None, ReAuth = Some (refresh tok)\<rparr>"
  let ?w = "\<lparr>script = replicate (Suc n) (401, []) @ [(200, [])], sent = ss, reauths = k\<rparr>"
  let ?c2 = "c\<lparr>accessToken := tok\<rparr>"
  let ?req2 = "setRequestAuthorization ?c2 req"
  let ?ss2 = "ss @ [(Header req ''Authorization'', Cookies req, Body req)]"
  have step: "do scripted ?col c ?w req
      = do scripted ?col ?c2 \<lparr>script = replicate n (401, []) @ [(200, [])], sent = ?ss2,
                                reauths = Suc k\<rparr> ?req2"
    using Suc.prems
    by (subst do.simps) (auto simp add: scripted_def refresh_def Let_def)
  have a: "Header ?req2 ''Authorization'' \<noteq> None"
    using Suc.prems(1) by (rule setRequestAuthorization_keeps_Authorization)
  have b: "Body ?req2 = None" using Suc.prems(2) by simp
  from Suc.IH [OF a b, of ?c2 ?ss2 "Suc k"] step show ?case by auto
qed

text \<open>
  The client's fields after a call of \<open>do\<close> are the ones it started with, or the ones a
  call of the hook returned when it was given an empty access token.
\<close>

lemma do_client_from_hook:
  assumes ret: "do D0 col0 c0 w0 req0 = Some y0"
  shows "fst (snd y0) = c0 \<or>
     (\<exists>reAuth wa ca e wb. ReAuth col0 = Some reAuth \<and> accessToken ca = []
        \<and> reAuth wa ca = (e, fst (snd y0), wb))"
proof (rule do.raw_induct [where P = "\<lambda>D col c w req y. fst (snd y) = c \<or>
     (\<exists>reAuth wa ca e wb. ReAuth col = Some reAuth \<and> accessToken ca = []
        \<and> reAuth wa ca = (e, fst (snd y), wb))", OF _ ret], goal_cases)
  case (1 do' D col c w req y)
  show ?case
  proof (cases "(case HTTPClient col of None \<Rightarrow> D | Some t \<Rightarrow> t) w req")
    case (Pair out w1)
    show ?thesis
    proof (cases out)
      case (Inl a)
      with Pair 1(2) show ?thesis by (auto simp add: Let_def split: prod.splits)
    next
      case (Inr r)
      show ?thesis
      proof (cases "if StatusCode r = 401 \<and> Header req ''Authorization'' \<noteq> None
                       \<and> (Body req = None \<or> GetBody req \<noteq> None) then ReAuth col else None")
        case None
        with Pair Inr 1(2) show ?thesis by (auto simp add: Let_def)
      next
        case (Some reAuth)
        then have ra: "ReAuth col = Some reAuth" by (simp split: if_splits)
        obtain e c2 w2 where h: "reAuth w1 (c\<lparr>accessToken := []\<rparr>) = (e, c2, w2)"
          by (cases "reAuth w1 (c\<lparr>accessToken := []\<rparr>)") auto
        have from_hook: "\<exists>reAuth wa ca e wb. ReAuth col = Some reAuth \<and> accessToken ca = []
              \<and> reAuth wa ca = (e, c2, wb)"
          using ra h by (intro exI [of _ reAuth] exI [of _ w1] exI [of _ "c\<lparr>accessToken := []\<rparr>"]
              exI [of _ e] exI [of _ w2]) simp
        show ?thesis
        proof (cases e)
          case (Some err)
          with Pair Inr \<open>(if _ then _ else _) = Some reAuth\<close> h 1(2) from_hook
          show ?thesis by (auto simp add: Let_def)
        next
          case None
          note eN = None
          show ?thesis
          proof (cases "Body req")
            case None
            with Pair Inr \<open>(if _ then _ else _) = Some reAuth\<close> h eN 1(2)
            have "do' D col c2 w2 (setRequestAuthorization c2 req) = Some y"
              by (simp add: Let_def)
            from 1(1) [OF this] from_hook show ?thesis by auto
          next
            case (Some b0)
            show ?thesis
            proof (cases "GetBody req")
              case None
              with Some Pair Inr \<open>(if _ then _ else _) = Some reAuth\<close> h eN 1(2) from_hook
              show ?thesis by (auto simp add: Let_def)
            next
              case (Some getBody)
              note gb = Some
              show ?thesis
              proof (cases "getBody w2")
                case (Inl err)
                with gb \<open>Body req = Some b0\<close> Pair Inr \<open>(if _ then _ else _) = Some reAuth\<close> h eN 1(2) from_hook
                show ?thesis by (auto simp add: Let_def)
              next
                case (Inr body)
                with gb \<open>Body req = Some b0\<close> Pair \<open>out = Inr r\<close> \<open>(if _ then _ else _) = Some reAuth\<close> h eN 1(2)
                have "do' D col c2 w2 ((setRequestAuthorization c2 req)\<lparr>Body := Some body\<rparr>) = Some y"
                  by (simp add: Let_def)
                from 1(1) [OF this] from_hook show ?thesis by auto
              qed
            qed
          qed
        qed
      qed
    qed
  qed
qed

text \<open>What \<open>do\<close> does after a 401 when the three guard conditions hold.\<close>

lemma do_unauthorized:
  assumes "(case HTTPClient col of None \<Rightarrow> D | Some t \<Rightarrow> t) w req = (Inr r, w1)"
      and "StatusCode r = 401"
      and "Header req ''Authorization'' \<noteq> None"
      and "ReAuth col = Some reAuth"
      and "Body req = None \<or> GetBody req \<noteq> None"
  shows "do D col c w req =
     (case reAuth w1 (c\<lparr>accessToken := []\<rparr>) of
        (Some err, c2, w2) \<Rightarrow> Some (Inl (err, Some (r\<lparr>Closed := True\<rparr>)), c2, w2)
      | (None, c2, w2) \<Rightarrow>
          (case Body req of
             None \<Rightarrow> do D col c2 w2 (setRequestAuthorization c2 req)
           | Some _ \<Rightarrow>
               (case GetBody req of
                  None \<Rightarrow> Some (Inl (Panic ''nil GetBody'', None), c2, w2)
                | Some getBody \<Rightarrow>
                    (case getBody w2 of
                       Inl err \<Rightarrow> Some (Inl (err, Some (r\<lparr>Closed := True\<rparr>)), c2, w2)
                     | Inr body \<Rightarrow>
                         do D col c2 w2 ((setRequestAuthorization c2 req)\<lparr>Body := Some body\<rparr>)))))"
  using assms
  by (subst do.simps) (auto simp add: Let_def split: option.splits prod.splits sum.splits)

text \<open>
  C8. Not every 401 clears the access token: when a guard condition fails, \<open>do\<close> returns
  the response and leaves the token as it is. When the transport answers 401 and the three
  guard conditions hold, the first thing \<open>do\<close> does is call the hook with the access token
  cleared, and what it returns is decided by that call: the hook's error with the client's
  fields the hook left, or a new send with the client's fields the hook left. Whenever the
  call returns, the client's fields are the ones a call of the hook returned when it was
  given an empty access token, so only the hook stores a token again.
\<close>

theorem token_cleared_then_only_hook:
  assumes "(case HTTPClient col of None \<Rightarrow> D | Some t \<Rightarrow> t) w req = (Inr r, w1)"
      and "StatusCode r = 401"
  shows "case (if Header req ''Authorization'' \<noteq> None
                  \<and> (Body req = None \<or> GetBody req \<noteq> None) then ReAuth col else None) of
           None \<Rightarrow> do D col c w req = Some (Inr r, c, w1)
         | Some reAuth \<Rightarrow>
             do D col c w req =
               (case reAuth w1 (c\<lparr>accessToken := []\<rparr>) of
                  (Some err, c2, w2) \<Rightarrow> Some (Inl (err, Some (r\<lparr>Closed := True\<rparr>)), c2, w2)
                | (None, c2, w2) \<Rightarrow>
                    (case Body req of
                       None \<Rightarrow> do D col c2 w2 (setRequestAuthorization c2 req)
                     | Some _ \<Rightarrow>
                         (case GetBody req of
                            None \<Rightarrow> Some (Inl (Panic ''nil GetBody'', None), c2, w2)
                          | Some getBody \<Rightarrow>
                              (case getBody w2 of
                                 Inl err \<Rightarrow> Some (Inl (err, Some (r\<lparr>Closed := True\<rparr>)), c2, w2)
                               | Inr body \<Rightarrow>
                                   do D col c2 w2
                                     ((setRequestAuthorization c2 req)\<lparr>Body := Some body\<rparr>)))))
             \<and> (\<forall>res c' w'. do D col c w req = Some (res, c', w') \<longrightarrow>
                   (\<exists>wa ca e wb. accessToken ca = [] \<and> reAuth wa ca = (e, c', wb)))"
proof (cases "if Header req ''Authorization'' \<noteq> None
                  \<and> (Body req = None \<or> GetBody req \<noteq> None) then ReAuth col else None")
  case None
  have "do D col c w req = Some (Inr r, c, w1)"
    using assms None by (subst do.simps) (auto simp add: Let_def split: if_splits)
  with None show ?thesis by simp
next
  case (Some reAuth)
  then have a: "Header req ''Authorization'' \<noteq> None"
    and h: "ReAuth col = Some reAuth"
    and b: "Body req = None \<or> GetBody req \<noteq> None"
    by (auto split: if_splits)
  note step = do_unauthorized [OF assms(1) assms(2) a h b]
  have only_hook: "\<exists>wa ca e wb. accessToken ca = [] \<and> reAuth wa ca = (e, c', wb)"
    if ret: "do D col c w req = Some (res, c', w')" for res c' w'
  proof -
    obtain e c2 w2 where hk: "reAuth w1 (c\<lparr>accessToken := []\<rparr>) = (e, c2, w2)"
      by (cases "reAuth w1 (c\<lparr>accessToken := []\<rparr>)") auto
    have first: "\<exists>wa ca e wb. accessToken ca = [] \<and> reAuth wa ca = (e, c2, wb)"
      using hk by (intro exI [of _ w1] exI [of _ "c\<lparr>accessToken := []\<rparr>"]
          exI [of _ e] exI [of _ w2]) simp
    have later: "\<exists>wa ca e wb. accessToken ca = [] \<and> reAuth wa ca = (e, c', wb)"
      if "do D col c2 w2 req' = Some (res, c', w')" for req'
      using do_client_from_hook [OF that] first h by auto
    from ret hk first later show ?thesis
      unfolding step by (auto split: option.splits sum.splits)
  qed
  from Some step only_hook show ?thesis by simp
qed

theorem token_cleared_then_only_hook_witness:
  "do scripted \<lparr>HTTPClient = None, ReAuth = Some (refresh ''t3'')\<rparr> client_u1
      (server [(401, []), (404, [])]) get_x
     = Some (Inr \<lparr>StatusCode = 404, RespBody = [], Closed = False\<rparr>,
             \<lparr>RootURL = ''https://mail.example/api'', AppVersion = ''Other'',
              uid = ''u1'', accessToken = ''t3'', authToken = ''a b/c''\<rparr>,
             \<lparr>script = [],
              sent = [(Some ''Bearer t1'', [(''AUTH-u1'', ''a+b%2Fc'')], None),
                      (Some ''Bearer t3'',
                       [(''AUTH-u1'', ''a+b%2Fc''), (''AUTH-u1'', ''a+b%2Fc'')], None)],
              reauths = 1\<rparr>)
   \<and> do scripted \<lparr>HTTPClient = None, ReAuth = Some refresh_fails\<rparr> client_u1
      (server [(401, [])]) get_x
     = Some (Inl (Error ''refresh failed'',
                  Some \<lparr>StatusCode = 401, RespBody = [], Closed = True\<rparr>),
             \<lparr>RootURL = ''https://mail.example/api'', AppVersion = ''Other'',
              uid = ''u1'', accessToken = [], authToken = ''a b/c''\<rparr>,
             \<lparr>script = [],
              sent = [(Some ''Bearer t1'', [(''AUTH-u1'', ''a+b%2Fc'')], None)],
              reauths = 1\<rparr>)"
proof -
  let ?col = "\<lparr>HTTPClient = None, ReAuth = Some (refresh ''t3'')\<rparr>"
  let ?colf = "\<lparr>HTTPClient = None, ReAuth = Some refresh_fails\<rparr>"
  let ?s1 = "[(Some ''Bearer t1'', [(''AUTH-u1'', ''a+b%2Fc'')], None)]"
  let ?w1 = "\<lparr>script = [(404, [])], sent = ?s1, reauths = 0\<rparr>"
  let ?c2 = "client_u1\<lparr>accessToken := ''t3''\<rparr>"
  have t: "(case HTTPClient ?col of None \<Rightarrow> scripted | Some t \<Rightarrow> t)
             (server [(401, []), (404, [])]) get_x
           = (Inr \<lparr>StatusCode = 401, RespBody = [], Closed = False\<rparr>, ?w1)"
    by (simp add: scripted_def server_def get_x_def)
  have tf: "(case HTTPClient ?colf of None \<Rightarrow> scripted | Some t \<Rightarrow> t)
             (server [(401, [])]) get_x
           = (Inr \<lparr>StatusCode = 401, RespBody = [], Closed = False\<rparr>,
              \<lparr>script = [], sent = ?s1, reauths = 0\<rparr>)"
    by (simp add: scripted_def server_def get_x_def)
  have s: "StatusCode \<lparr>StatusCode = 401, RespBody = [], Closed = False\<rparr> = 401" by simp
  from token_cleared_then_only_hook [OF t s, of client_u1]
  have "do scripted ?col client_u1 (server [(401, []), (404, [])]) get_x
          = do scripted ?col ?c2 (?w1\<lparr>reauths := 1\<rparr>) (setRequestAuthorization ?c2 get_x)"
    by (simp add: get_x_def refresh_def)
  also have "\<dots> = Some (Inr \<lparr>StatusCode = 404, RespBody = [], Closed = False\<rparr>, ?c2,
             \<lparr>script = [],
              sent = [(Some ''Bearer t1'', [(''AUTH-u1'', ''a+b%2Fc'')], None),
                      (Some ''Bearer t3'',
                       [(''AUTH-u1'', ''a+b%2Fc''), (''AUTH-u1'', ''a+b%2Fc'')], None)],
              reauths = 1\<rparr>)"
    by (subst do.simps) (simp add: run_defs get_x_def)
  finally have ok: "do scripted ?col client_u1 (server [(401, []), (404, [])]) get_x
      = Some (Inr \<lparr>StatusCode = 404, RespBody = [], Closed = False\<rparr>, ?c2,
             \<lparr>script = [],
              sent = [(Some ''Bearer t1'', [(''AUTH-u1'', ''a+b%2Fc'')], None),
                      (Some ''Bearer t3'',
                       [(''AUTH-u1'', ''a+b%2Fc''), (''AUTH-u1'', ''a+b%2Fc'')], None)],
              reauths = 1\<rparr>)" .
  from token_cleared_then_only_hook [OF tf s, of client_u1]
  have failed: "do scripted ?colf client_u1 (server [(401, [])]) get_x
      = Some (Inl (Error ''refresh failed'',
                  Some \<lparr>StatusCode = 401, RespBody = [], Closed = True\<rparr>),
              client_u1\<lparr>accessToken := []\<rparr>,
              \<lparr>script = [], sent = ?s1, reauths = 1\<rparr>)"
    by (simp add: get_x_def refresh_fails_def)
  from ok failed show ?thesis by (simp add: client_u1_def)
qed

text \<open>
  The server answers 401 and no hook is configured: the access token is still \<^verbatim>\<open>t1\<close>
  after the call.
\<close>

theorem unauthorized_without_hook_keeps_token:
  "do scripted \<lparr>HTTPClient = None, ReAuth = None\<rparr> client_u1 (server [(401, [])]) get_x
     = Some (Inr \<lparr>StatusCode = 401, RespBody = [], Closed = False\<rparr>,
             \<lparr>RootURL = ''https://mail.example/api'', AppVersion = ''Other'',
              uid = ''u1'', accessToken = ''t1'', authToken = ''a b/c''\<rparr>,
             \<lparr>script = [], sent = [(Some ''Bearer t1'', [(''AUTH-u1'', ''a+b%2Fc'')], None)],
              reauths = 0\<rparr>)"
  by (subst do.simps) (simp add: run_defs get_x_def)



subsection \<open>The response decoder\<close>

text \<open>
  C4. A typed API error does not need a non-empty message: \<open>resp_Err\<close> tests the
  embedded pointer, not the message, so a body whose error-message field is present and
  empty gives a typed API error too. What holds: with no destination, when \<open>do\<close> returns a
  response and its body decodes to the envelope \<open>env\<close>, \<open>doJSON\<close> returns \<open>resp_Err env\<close>,
  which is an error exactly when the envelope has its error part, and then is the typed
  API error of the envelope's \<open>Code\<close> and that message. The two bodies of the claim give no
  error and the error 401 \<^verbatim>\<open>invalid token\<close>.
\<close>

theorem envelope_error_iff_present:
  assumes "do D col c w (Header_Set ''Accept'' ''application/json'' req) = Some (Inr r, c1, w1)"
      and "dec (RespBody r) = Inr env"
  shows "doJSON dec D col c w req (None :: 'a shape option) = Some (resp_Err env, None, c1, w1)
       \<and> (resp_Err env \<noteq> None \<longleftrightarrow> RawAPIError env \<noteq> None)
       \<and> (\<forall>m. RawAPIError env = Some m
              \<longrightarrow> resp_Err env = Some (APIError (Code env) (Message m)))"
  using assms
  by (auto simp add: doJSON_def decodeInto_def new_resp_def resp_Err_def
      split: option.splits)

theorem envelope_error_iff_present_witness:
  \<open>doJSON decode_resp scripted \<lparr>HTTPClient = None, ReAuth = None\<rparr> client_u1
      (server [(200, ''{"Code":2000}'')]) get_x (None :: unit shape option)
     = Some (None, None, client_u1,
             \<lparr>script = [], sent = [(Some ''Bearer t1'', [(''AUTH-u1'', ''a+b%2Fc'')], None)],
              reauths = 0\<rparr>)
   \<and> doJSON decode_resp scripted \<lparr>HTTPClient = None, ReAuth = None\<rparr> client_u1
      (server [(401, ''{"Code":401,"Error":"invalid token"}'')]) get_x (None :: unit shape option)
     = Some (Some (APIError 401 ''invalid token''), None, client_u1,
             \<lparr>script = [], sent = [(Some ''Bearer t1'', [(''AUTH-u1'', ''a+b%2Fc'')], None)],
              reauths = 0\<rparr>)\<close>
proof -
  let ?col = "\<lparr>HTTPClient = None, ReAuth = None\<rparr> :: World Collab"
  let ?w1 = "\<lparr>script = [], sent = [(Some ''Bearer t1'', [(''AUTH-u1'', ''a+b%2Fc'')], None)],
              reauths = 0\<rparr>"
  have d1: \<open>do scripted ?col client_u1 (server [(200, ''{"Code":2000}'')])
              (Header_Set ''Accept'' ''application/json'' get_x)
            = Some (Inr \<lparr>StatusCode = 200, RespBody = ''{"Code":2000}'', Closed = False\<rparr>,
                    client_u1, ?w1)\<close>
    by (subst do.simps) (simp add: run_defs get_x_def)
  have e1: \<open>decode_resp (RespBody \<lparr>StatusCode = 200, RespBody = ''{"Code":2000}'', Closed = False\<rparr>)
            = Inr \<lparr>Code = 2000, RawAPIError = None\<rparr>\<close>
    by (simp add: decode_resp_def)
  have d2: \<open>do scripted ?col client_u1 (server [(401, ''{"Code":401,"Error":"invalid token"}'')])
              (Header_Set ''Accept'' ''application/json'' get_x)
            = Some (Inr \<lparr>StatusCode = 401, RespBody = ''{"Code":401,"Error":"invalid token"}'',
                         Closed = False\<rparr>, client_u1, ?w1)\<close>
    by (subst do.simps) (simp add: run_defs get_x_def)
  have e2: \<open>decode_resp (RespBody \<lparr>StatusCode = 401,
                RespBody = ''{"Code":401,"Error":"invalid token"}'', Closed = False\<rparr>)
            = Inr \<lparr>Code = 401, RawAPIError = Some \<lparr>Message = ''invalid token''\<rparr>\<rparr>\<close>
    by (simp add: decode_resp_def)
  from envelope_error_iff_present [where dec = decode_resp, OF d1 e1, THEN conjunct1]
       envelope_error_iff_present [where dec = decode_resp, OF d2 e2, THEN conjunct1]
  show ?thesis by (simp add: resp_Err_def)
qed

text \<open>
  The body has the key \<^verbatim>\<open>"Error"\<close> with an empty message: \<open>doJSON\<close> returns a typed API
  error with code 401 and an empty message.
\<close>

theorem empty_error_message_is_error:
  \<open>doJSON decode_resp scripted \<lparr>HTTPClient = None, ReAuth = None\<rparr> client_u1
      (server [(200, ''{"Code":401,"Error":""}'')]) get_x (None :: unit shape option)
     = Some (Some (APIError 401 []), None, client_u1,
             \<lparr>script = [], sent = [(Some ''Bearer t1'', [(''AUTH-u1'', ''a+b%2Fc'')], None)],
              reauths = 0\<rparr>)
   \<and> resp_Err \<lparr>Code = 401, RawAPIError = Some \<lparr>Message = []\<rparr>\<rparr> = Some (APIError 401 [])\<close>
proof -
  have \<open>do scripted \<lparr>HTTPClient = None, ReAuth = None\<rparr> client_u1
            (server [(200, ''{"Code":401,"Error":""}'')])
            (Header_Set ''Accept'' ''application/json'' get_x)
          = Some (Inr \<lparr>StatusCode = 200, RespBody = ''{"Code":401,"Error":""}'', Closed = False\<rparr>,
                  client_u1,
                  \<lparr>script = [],
                   sent = [(Some ''Bearer t1'', [(''AUTH-u1'', ''a+b%2Fc'')], None)],
                   reauths = 0\<rparr>)\<close>
    by (subst do.simps) (simp add: run_defs get_x_def)
  then show ?thesis
    by (simp add: doJSON_def decodeInto_def new_resp_def resp_Err_def decode_resp_def)
qed

text \<open>
  C5. The code of the typed API error is not the HTTP status code of the response: it is
  the \<open>Code\<close> field of the decoded body. When \<open>do\<close> returns a response, its body decodes
  into the destination and the destination reports an error with a message (its \<^verbatim>\<open>Err\<close>
  method is the one of the \<^verbatim>\<open>resp\<close> it embeds, and that \<^verbatim>\<open>resp\<close> has its error part),
  \<open>doJSON\<close> returns the typed API error whose code is the \<open>Code\<close> of the decoded body and
  whose message is that message, whatever the \<open>StatusCode\<close> of the response is. The same
  holds with no destination, for the envelope.
\<close>

theorem api_error_carries_code_and_message:
  assumes "do D col c w (Header_Set ''Accept'' ''application/json'' req) = Some (Inr r, c1, w1)"
      and "Decode dest (RespBody r) = Inr v"
      and "Err dest = Some (\<lambda>v. resp_Err (envelope v))"
      and "RawAPIError (envelope v) = Some m"
  shows "doJSON dec D col c w req (Some dest)
           = Some (Some (APIError (Code (envelope v)) (Message m)), Some v, c1, w1)
       \<and> (\<forall>s. decodeInto dest (r\<lparr>StatusCode := s\<rparr>)
                = (Some (APIError (Code (envelope v)) (Message m)), Some v))
       \<and> (\<forall>env m'. dec (RespBody r) = Inr env \<longrightarrow> RawAPIError env = Some m' \<longrightarrow>
             doJSON dec D col c w req (None :: 'a shape option)
               = Some (Some (APIError (Code env) (Message m')), None, c1, w1))"
  using assms
  by (auto simp add: doJSON_def decodeInto_def new_resp_def resp_Err_def)

theorem api_error_carries_code_and_message_witness:
  \<open>doJSON decode_resp scripted \<lparr>HTTPClient = None, ReAuth = None\<rparr> client_u1
      (server [(200, ''{"Code":401,"Error":"invalid token"}'')]) get_x (Some total_shape)
     = Some (Some (APIError 401 ''invalid token''),
             Some (\<lparr>Code = 401, RawAPIError = Some \<lparr>Message = ''invalid token''\<rparr>\<rparr>, 0),
             client_u1,
             \<lparr>script = [], sent = [(Some ''Bearer t1'', [(''AUTH-u1'', ''a+b%2Fc'')], None)],
              reauths = 0\<rparr>)\<close>
proof -
  let ?col = "\<lparr>HTTPClient = None, ReAuth = None\<rparr> :: World Collab"
  let ?w1 = "\<lparr>script = [], sent = [(Some ''Bearer t1'', [(''AUTH-u1'', ''a+b%2Fc'')], None)],
              reauths = 0\<rparr>"
  let ?env = "\<lparr>Code = 401, RawAPIError = Some \<lparr>Message = ''invalid token''\<rparr>\<rparr>"
  have d: \<open>do scripted ?col client_u1 (server [(200, ''{"Code":401,"Error":"invalid token"}'')])
              (Header_Set ''Accept'' ''application/json'' get_x)
            = Some (Inr \<lparr>StatusCode = 200, RespBody = ''{"Code":401,"Error":"invalid token"}'',
                         Closed = False\<rparr>, client_u1, ?w1)\<close>
    by (subst do.simps) (simp add: run_defs get_x_def)
  have e: \<open>Decode total_shape (RespBody \<lparr>StatusCode = 200,
                RespBody = ''{"Code":401,"Error":"invalid token"}'', Closed = False\<rparr>)
            = Inr (?env, 0)\<close>
    by (simp add: total_shape_def decode_resp_def)
  have m: "Err total_shape = Some (\<lambda>v. resp_Err (fst v))"
    by (simp add: total_shape_def)
  have p: "RawAPIError (fst (?env, 0 :: nat)) = Some \<lparr>Message = ''invalid token''\<rparr>"
    by simp
  from api_error_carries_code_and_message
         [where dest = total_shape and envelope = fst and dec = decode_resp, OF d e m p,
          THEN conjunct1]
  show ?thesis by simp
qed

text \<open>
  The response has the HTTP status code 200 and its body has the code 401: the typed API
  error carries 401, not 200.
\<close>

theorem error_code_is_not_http_status:
  \<open>do scripted \<lparr>HTTPClient = None, ReAuth = None\<rparr> client_u1
      (server [(200, ''{"Code":401,"Error":"invalid token"}'')])
      (Header_Set ''Accept'' ''application/json'' get_x)
     = Some (Inr \<lparr>StatusCode = 200, RespBody = ''{"Code":401,"Error":"invalid token"}'',
                  Closed = False\<rparr>,
             client_u1,
             \<lparr>script = [], sent = [(Some ''Bearer t1'', [(''AUTH-u1'', ''a+b%2Fc'')], None)],
              reauths = 0\<rparr>)
   \<and> doJSON decode_resp scripted \<lparr>HTTPClient = None, ReAuth = None\<rparr> client_u1
      (server [(200, ''{"Code":401,"Error":"invalid token"}'')]) get_x (None :: unit shape option)
     = Some (Some (APIError 401 ''invalid token''), None, client_u1,
             \<lparr>script = [], sent = [(Some ''Bearer t1'', [(''AUTH-u1'', ''a+b%2Fc'')], None)],
              reauths = 0\<rparr>)
   \<and> APIError 401 ''invalid token'' \<noteq> APIError 200 ''invalid token''\<close>
proof -
  have d: \<open>do scripted \<lparr>HTTPClient = None, ReAuth = None\<rparr> client_u1
      (server [(200, ''{"Code":401,"Error":"invalid token"}'')])
      (Header_Set ''Accept'' ''application/json'' get_x)
     = Some (Inr \<lparr>StatusCode = 200, RespBody = ''{"Code":401,"Error":"invalid token"}'',
                  Closed = False\<rparr>,
             client_u1,
             \<lparr>script = [], sent = [(Some ''Bearer t1'', [(''AUTH-u1'', ''a+b%2Fc'')], None)],
              reauths = 0\<rparr>)\<close>
    by (subst do.simps) (simp add: run_defs get_x_def)
  then show ?thesis
    by (simp add: doJSON_def decodeInto_def new_resp_def resp_Err_def decode_resp_def)
qed

end
